theory Spec2Isabelle
  imports Complex_Main "HOL-Library.Sublist"
begin

section \<open>Python values shared by the modules\<close>

text \<open>
  Exceptions of the Python code are values. Only the exception classes the modelled
  functions can raise are listed; the payload of \<open>ValueError\<close> is its message.
\<close>

datatype error =
    ValueError string
  | ZeroDivisionError
  | TypeError
  | KeyError
  | IntegrityError
  | InterfaceError

text \<open>The single quote character, used inside messages built by f-strings.\<close>

definition quote :: string where
  "quote = [CHR 0x27]"

text \<open>\<open>str.upper()\<close> on ASCII text.\<close>

definition upper_char :: "char \<Rightarrow> char" where
  "upper_char c =
     (let n = (of_char c :: nat) in if 97 \<le> n \<and> n \<le> 122 then char_of (n - 32) else c)"

definition upper :: "string \<Rightarrow> string" where
  "upper s = map upper_char s"

section \<open>configs/websocket\_config.py\<close>

datatype AssetType = STOCKS | CRYPTO | FOREX | INDICES | OPTIONS | FUTURES

fun asset_value :: "AssetType \<Rightarrow> string" where
  "asset_value STOCKS = ''stocks''"
| "asset_value CRYPTO = ''crypto''"
| "asset_value FOREX = ''forex''"
| "asset_value INDICES = ''indices''"
| "asset_value OPTIONS = ''options''"
| "asset_value FUTURES = ''futures''"

datatype SubscriptionTier = BASIC | STARTER | DEVELOPER | ADVANCED

fun tier_value :: "SubscriptionTier \<Rightarrow> string" where
  "tier_value BASIC = ''basic''"
| "tier_value STARTER = ''starter''"
| "tier_value DEVELOPER = ''developer''"
| "tier_value ADVANCED = ''advanced''"

text \<open>
  The process environment read by \<open>os.getenv\<close> is a map from variable names to values.
  A \<open>WebSocketConfig\<close> object holds the API key and the dictionary
  \<open>asset_subscriptions\<close> filled by \<open>__init__\<close>.
\<close>

type_synonym environ = "string \<rightharpoonup> string"

record WebSocketConfig =
  api_key :: string
  asset_subscriptions :: "AssetType \<rightharpoonup> SubscriptionTier"

definition WEBSOCKET_ENABLED_TIERS :: "SubscriptionTier set" where
  "WEBSOCKET_ENABLED_TIERS = {STARTER, DEVELOPER, ADVANCED}"

definition WEBSOCKET_BASE_URLS :: "SubscriptionTier \<rightharpoonup> string" where
  "WEBSOCKET_BASE_URLS = map_of
     [(STARTER, ''wss://delayed.polygon.io''),
      (DEVELOPER, ''wss://socket.polygon.io''),
      (ADVANCED, ''wss://socket.polygon.io'')]"

text \<open>The class dictionaries keep their insertion order as association lists.\<close>

fun DATA_TYPES :: "AssetType \<Rightarrow> (string \<times> string) list" where
  "DATA_TYPES STOCKS =
     [(''A'', ''aggregates''), (''AM'', ''aggregates_min''), (''AS'', ''aggregates_sec''),
      (''T'', ''trades''), (''Q'', ''quotes'')]"
| "DATA_TYPES CRYPTO =
     [(''XA'', ''aggregates''), (''XAS'', ''aggregates_sec''), (''XT'', ''trades''),
      (''XQ'', ''quotes''), (''XL2'', ''level2'')]"
| "DATA_TYPES FOREX = [(''C'', ''quotes''), (''CA'', ''aggregates'')]"
| "DATA_TYPES INDICES = [(''I:SPX'', ''value''), (''V'', ''value''), (''A'', ''aggregates'')]"
| "DATA_TYPES OPTIONS = [(''T'', ''trades''), (''Q'', ''quotes''), (''A'', ''aggregates'')]"
| "DATA_TYPES FUTURES = [(''A'', ''aggregates''), (''T'', ''trades''), (''Q'', ''quotes'')]"

definition TIER_RESTRICTED_DATA_TYPES :: "string \<rightharpoonup> SubscriptionTier" where
  "TIER_RESTRICTED_DATA_TYPES = map_of
     [(''AS'', DEVELOPER), (''XAS'', DEVELOPER), (''T'', DEVELOPER), (''XT'', DEVELOPER),
      (''Q'', DEVELOPER), (''XQ'', DEVELOPER), (''XL2'', ADVANCED)]"

text \<open>
  \<open>__init__\<close>: every asset type gets the tier named by \<open>POLYGON_TIER_<ASSET>\<close>
  (lower-cased), \<open>basic\<close> when the variable is unset and \<open>BASIC\<close> when the name is not a
  tier. A missing API key raises.
\<close>

fun SubscriptionTier_of :: "string \<Rightarrow> SubscriptionTier option" where
  "SubscriptionTier_of s =
     (if s = ''basic'' then Some BASIC
      else if s = ''starter'' then Some STARTER
      else if s = ''developer'' then Some DEVELOPER
      else if s = ''advanced'' then Some ADVANCED
      else None)"

definition lower_char :: "char \<Rightarrow> char" where
  "lower_char c =
     (let n = (of_char c :: nat) in if 65 \<le> n \<and> n \<le> 90 then char_of (n + 32) else c)"

definition lower :: "string \<Rightarrow> string" where
  "lower s = map lower_char s"

definition all_asset_types :: "AssetType list" where
  "all_asset_types = [STOCKS, CRYPTO, FOREX, INDICES, OPTIONS, FUTURES]"

definition load_tier :: "environ \<Rightarrow> AssetType \<Rightarrow> SubscriptionTier" where
  "load_tier env a =
     (let tier_str = (case env (''POLYGON_TIER_'' @ upper (asset_value a)) of
                        None \<Rightarrow> ''basic'' | Some v \<Rightarrow> v)
      in case SubscriptionTier_of (lower tier_str) of
           Some t \<Rightarrow> t
         | None \<Rightarrow> BASIC)"

definition init_config :: "environ \<Rightarrow> error + WebSocketConfig" where
  "init_config env =
     (case env ''POLYGON_API_KEY'' of
        None \<Rightarrow> Inl (ValueError ''POLYGON_API_KEY not found in environment variables'')
      | Some k \<Rightarrow>
          if k = [] then Inl (ValueError ''POLYGON_API_KEY not found in environment variables'')
          else Inr \<lparr> api_key = k,
                     asset_subscriptions =
                       map_of (map (\<lambda>a. (a, load_tier env a)) all_asset_types) \<rparr>)"

definition get_subscription_tier :: "WebSocketConfig \<Rightarrow> AssetType \<Rightarrow> SubscriptionTier" where
  "get_subscription_tier cfg a =
     (case asset_subscriptions cfg a of None \<Rightarrow> BASIC | Some t \<Rightarrow> t)"

definition has_websocket_access :: "WebSocketConfig \<Rightarrow> AssetType \<Rightarrow> bool" where
  "has_websocket_access cfg a =
     ((case asset_subscriptions cfg a of None \<Rightarrow> BASIC | Some t \<Rightarrow> t)
        \<in> WEBSOCKET_ENABLED_TIERS)"

text \<open>
  \<open>base_url\<close> comes from \<open>dict.get\<close>, so a tier without an entry would be formatted as
  \<open>None\<close> by the f-string.
\<close>

definition fmt_opt :: "string option \<Rightarrow> string" where
  "fmt_opt v = (case v of None \<Rightarrow> ''None'' | Some s \<Rightarrow> s)"

definition get_websocket_url :: "environ \<Rightarrow> WebSocketConfig \<Rightarrow> AssetType \<Rightarrow> error + string" where
  "get_websocket_url env cfg a =
     (let env_url = env (''POLYGON_WS_URL_'' @ upper (asset_value a)) in
      if env_url \<noteq> None \<and> env_url \<noteq> Some [] then Inr (the env_url)
      else
        let tier = get_subscription_tier cfg a in
        if tier \<notin> WEBSOCKET_ENABLED_TIERS then
          Inl (ValueError (''WebSocket not available for '' @ asset_value a @ '' on ''
                 @ tier_value tier @ '' tier. Upgrade to Starter or higher.''))
        else
          let base_url =
                (if a = CRYPTO \<and> tier = STARTER then WEBSOCKET_BASE_URLS DEVELOPER
                 else WEBSOCKET_BASE_URLS tier)
          in Inr (fmt_opt base_url @ ''/'' @ asset_value a))"

definition tier_hierarchy :: "SubscriptionTier list" where
  "tier_hierarchy = [BASIC, STARTER, DEVELOPER, ADVANCED]"

text \<open>\<open>list.index\<close>; every tier occurs in \<open>tier_hierarchy\<close>, so it never raises here.\<close>

definition index_of :: "'a list \<Rightarrow> 'a \<Rightarrow> nat" where
  "index_of xs x = length (takeWhile (\<lambda>y. y \<noteq> x) xs)"

definition tier_meets_requirement :: "SubscriptionTier \<Rightarrow> SubscriptionTier \<Rightarrow> bool" where
  "tier_meets_requirement current_tier required_tier =
     (index_of tier_hierarchy current_tier \<ge> index_of tier_hierarchy required_tier)"

definition get_available_data_types ::
  "WebSocketConfig \<Rightarrow> AssetType \<Rightarrow> bool \<Rightarrow> (string \<times> string) list" where
  "get_available_data_types cfg a include_restricted =
     (let all_types = DATA_TYPES a in
      if include_restricted then all_types
      else
        let tier = get_subscription_tier cfg a in
        filter (\<lambda>(code, description).
                  case TIER_RESTRICTED_DATA_TYPES code of
                    None \<Rightarrow> True
                  | Some required_tier \<Rightarrow> tier_meets_requirement tier required_tier)
               all_types)"

fun default_data_types :: "AssetType \<Rightarrow> string list" where
  "default_data_types STOCKS = [''A'']"
| "default_data_types CRYPTO = [''XA'']"
| "default_data_types FOREX = [''C'']"
| "default_data_types INDICES = [''V'']"
| "default_data_types OPTIONS = [''A'']"
| "default_data_types FUTURES = [''A'']"

text \<open>The validation loop: the first requested code that is not a key of the dictionary.\<close>

fun first_unavailable :: "(string \<times> string) list \<Rightarrow> string list \<Rightarrow> string option" where
  "first_unavailable available_types [] = None"
| "first_unavailable available_types (dt # dts) =
     (if dt \<notin> fst ` set available_types then Some dt
      else first_unavailable available_types dts)"

text \<open>The two nested loops that build the channel strings, data types outermost.\<close>

fun build_channels :: "string list \<Rightarrow> string list \<Rightarrow> string list" where
  "build_channels [] symbols = []"
| "build_channels (data_type # dts) symbols =
     map (\<lambda>symbol. data_type @ ''.'' @ symbol) symbols @ build_channels dts symbols"

definition get_subscription_channels ::
  "WebSocketConfig \<Rightarrow> AssetType \<Rightarrow> string list \<Rightarrow> string list option \<Rightarrow> error + string list" where
  "get_subscription_channels cfg a symbols data_types_arg =
     (if \<not> has_websocket_access cfg a then
        Inl (ValueError (''WebSocket not available for '' @ asset_value a @ '' with ''
               @ tier_value (get_subscription_tier cfg a) @ '' tier''))
      else
        let data_types = (case data_types_arg of None \<Rightarrow> default_data_types a | Some d \<Rightarrow> d);
            available_types = get_available_data_types cfg a False
        in case first_unavailable available_types data_types of
             Some dt \<Rightarrow>
               Inl (ValueError (''Data type '' @ quote @ dt @ quote @ '' not available for ''
                      @ asset_value a @ '' on '' @ tier_value (get_subscription_tier cfg a)
                      @ '' tier''))
           | None \<Rightarrow> Inr (build_channels data_types symbols))"

section \<open>Python dictionaries decoded from JSON\<close>

text \<open>
  A point in time (\<open>datetime\<close>), as microseconds since the epoch. The code only passes
  such values on or renders them as text.
\<close>

datatype datetime = Datetime int

text \<open>
  The values a decoded message or a dictionary built by the code can hold. JSON numbers
  (and the booleans, which Python treats as the integers 0 and 1) are exact rationals:
  rounding of binary floating point is not represented. Dictionaries are association lists
  with unique keys, in insertion order.
\<close>

datatype pyval =
    PNone
  | PNum rat
  | PStr string
  | PDatetime datetime
  | PList "pyval list"
  | PDict "(string \<times> pyval) list"

type_synonym pydict = "(string \<times> pyval) list"

text \<open>\<open>d.get(k, default)\<close>, \<open>k in d\<close> and \<open>d[k] = v\<close>.\<close>

definition dget :: "pydict \<Rightarrow> string \<Rightarrow> pyval \<Rightarrow> pyval" where
  "dget d k dflt = (case map_of d k of None \<Rightarrow> dflt | Some v \<Rightarrow> v)"

definition dhas :: "pydict \<Rightarrow> string \<Rightarrow> bool" where
  "dhas d k = (map_of d k \<noteq> None)"

definition dset :: "pydict \<Rightarrow> string \<Rightarrow> pyval \<Rightarrow> pydict" where
  "dset d k v =
     (if dhas d k then map (\<lambda>(k', v'). if k' = k then (k', v) else (k', v')) d
      else d @ [(k, v)])"

text \<open>
  Library functions on dates that the code calls are parameters: \<open>datetime.fromtimestamp\<close>
  and \<open>datetime.fromisoformat\<close> (\<open>None\<close> where they raise), \<open>isoformat()\<close>,
  \<open>strftime('%Y-%m-%d %H:%M:%S')\<close> and the text under which \<open>sqlite3\<close> stores a
  \<open>datetime\<close> parameter.
\<close>

record pylib =
  fromtimestamp :: "rat \<Rightarrow> datetime option"
  fromisoformat :: "string \<Rightarrow> datetime option"
  isoformat :: "datetime \<Rightarrow> string"
  strftime_ymdhms :: "datetime \<Rightarrow> string"
  adapt_datetime :: "datetime \<Rightarrow> string"

text \<open>Comparison of a value with the literal \<open>0\<close>: only numbers are ordered against it.\<close>

definition py_le_zero :: "pyval \<Rightarrow> error + bool" where
  "py_le_zero v = (case v of PNum x \<Rightarrow> Inr (x \<le> 0) | _ \<Rightarrow> Inl TypeError)"

text \<open>\<open>a / b\<close> on numbers.\<close>

definition py_truediv :: "rat \<Rightarrow> rat \<Rightarrow> error + rat" where
  "py_truediv a b = (if b = 0 then Inl ZeroDivisionError else Inr (a / b))"

text \<open>\<open>sum(xs)\<close>: starts from the integer 0 and adds from the left.\<close>

fun py_sum_from :: "rat \<Rightarrow> pyval list \<Rightarrow> error + rat" where
  "py_sum_from acc [] = Inr acc"
| "py_sum_from acc (PNum x # xs) = py_sum_from (acc + x) xs"
| "py_sum_from acc (_ # xs) = Inl TypeError"

definition py_sum :: "pyval list \<Rightarrow> error + rat" where
  "py_sum xs = py_sum_from 0 xs"

text \<open>Whether a value can be a dictionary key.\<close>

fun hashable :: "pyval \<Rightarrow> bool" where
  "hashable (PList _) = False"
| "hashable (PDict _) = False"
| "hashable _ = True"

section \<open>src/data/stream\_crypto.py: CryptoDataProcessor\<close>

text \<open>
  One entry of a symbol's window. Only numbers reach the window: a tick whose volume or
  price is not a number raises in the comparison with 0 before the append.
\<close>

record observation =
  obs_volume :: rat
  obs_price :: rat
  obs_timestamp :: rat

text \<open>
  \<open>recent_data\<close> is a \<open>defaultdict\<close> of \<open>deque(maxlen=10)\<close>: every key has a
  window, empty until written. \<open>volume_threshold\<close> is the attribute set to 2.0 by
  \<open>__init__\<close>.
\<close>

record CryptoDataProcessor =
  recent_data :: "pyval \<Rightarrow> observation list"
  volume_threshold :: rat

definition CryptoDataProcessor_init :: CryptoDataProcessor where
  "CryptoDataProcessor_init = \<lparr> recent_data = (\<lambda>_. []), volume_threshold = 2 \<rparr>"

definition deque_append :: "nat \<Rightarrow> 'a list \<Rightarrow> 'a \<Rightarrow> 'a list" where
  "deque_append maxlen w x = (let w' = w @ [x] in drop (length w' - maxlen) w')"

text \<open>
  \<open>check_volume_anomaly\<close>. The result is the anomaly dictionary built by the code, if
  any; the code then hands it to \<open>store_anomaly\<close> and to every anomaly callback, each
  call guarded by its own \<open>try\<close>. \<open>now\<close> is the clock read for the \<open>timestamp\<close> entry.
  The body runs inside \<open>try ... except Exception\<close>, so an exception ends the check
  without a result.
\<close>

definition check_volume_anomaly ::
  "pylib \<Rightarrow> datetime \<Rightarrow> CryptoDataProcessor \<Rightarrow> pyval \<Rightarrow> rat \<Rightarrow> pydict option" where
  "check_volume_anomaly L now st symbol current_volume =
     (let recent_volumes = map obs_volume (recent_data st symbol) in
      if length recent_volumes < 5 then None
      else
        case py_truediv (sum_list (butlast recent_volumes))
                        (of_nat (length (butlast recent_volumes))) of
          Inl e \<Rightarrow> None
        | Inr avg_volume \<Rightarrow>
            if avg_volume > 0 then
              (case py_truediv current_volume avg_volume of
                 Inl e \<Rightarrow> None
               | Inr multiplier \<Rightarrow>
                   if multiplier \<ge> volume_threshold st then
                     Some [(''type'', PStr ''volume_spike''),
                           (''symbol'', symbol),
                           (''current_volume'', PNum current_volume),
                           (''average_volume'', PNum avg_volume),
                           (''multiplier'', PNum multiplier),
                           (''timestamp'', PStr (isoformat L now)),
                           (''market'', PStr ''crypto'')]
                   else None)
            else None)"

text \<open>
  \<open>process_data\<close>: the new processor state and the anomaly emitted for this tick, if any.
  Every exception is caught by the method's own \<open>try\<close>; one raised before the append
  leaves the state as it was.
\<close>

definition process_data ::
  "pylib \<Rightarrow> datetime \<Rightarrow> CryptoDataProcessor \<Rightarrow> pydict \<Rightarrow> CryptoDataProcessor \<times> pydict option" where
  "process_data L now st data =
     (let symbol = dget data ''pair'' (PStr ''UNKNOWN'');
          volume = dget data ''v'' (PNum 0);
          close_price = dget data ''c'' (PNum 0)
      in case dget data ''s'' (PNum 0) of
           PNum s \<Rightarrow>
             (let timestamp = s / 1000 in
              case py_le_zero volume of
                Inl e \<Rightarrow> (st, None)
              | Inr True \<Rightarrow> (st, None)
              | Inr False \<Rightarrow>
                  (case py_le_zero close_price of
                     Inl e \<Rightarrow> (st, None)
                   | Inr True \<Rightarrow> (st, None)
                   | Inr False \<Rightarrow>
                       if \<not> hashable symbol then (st, None)
                       else
                         (case (volume, close_price) of
                            (PNum vol, PNum cp) \<Rightarrow>
                              (let st' = st\<lparr> recent_data := (recent_data st)
                                     (symbol := deque_append 10 (recent_data st symbol)
                                        \<lparr> obs_volume = vol, obs_price = cp,
                                          obs_timestamp = timestamp \<rparr>) \<rparr>
                               in (st', check_volume_anomaly L now st' symbol vol))
                          | _ \<Rightarrow> (st, None))))
         | _ \<Rightarrow> (st, None))"

section \<open>src/data/stream\_data.py: RealTimeDataProcessor\<close>

record symbol_store =
  recent_prices :: "pyval list"
  recent_volumes :: "pyval list"
  last_price :: pyval
  last_volume :: pyval

record RealTimeDataProcessor =
  data_store :: "pyval \<rightharpoonup> symbol_store"

definition RealTimeDataProcessor_init :: RealTimeDataProcessor where
  "RealTimeDataProcessor_init = \<lparr> data_store = Map.empty \<rparr>"

text \<open>\<open>xs[-20:]\<close>.\<close>

definition last20 :: "'a list \<Rightarrow> 'a list" where
  "last20 xs = drop (length xs - 20) xs"

text \<open>
  \<open>_check_for_anomalies\<close> reads the symbol's store after the append. It returns the
  anomaly dictionary that is passed to the callbacks, or raises.
\<close>

definition check_for_anomalies ::
  "symbol_store \<Rightarrow> pyval \<Rightarrow> pydict \<Rightarrow> error + pydict option" where
  "check_for_anomalies store symbol data =
     (if length (recent_volumes store) < 5 then Inr None
      else
        case map_of data ''volume'' of
          None \<Rightarrow> Inl KeyError
        | Some current_volume \<Rightarrow>
            (case py_sum (butlast (recent_volumes store)) of
               Inl e \<Rightarrow> Inl e
             | Inr vsum \<Rightarrow>
                 (case py_truediv vsum (of_nat (length (butlast (recent_volumes store)))) of
                    Inl e \<Rightarrow> Inl e
                  | Inr avg_volume \<Rightarrow>
                      (case current_volume of
                         PNum cv \<Rightarrow>
                           if cv > avg_volume * 3 then
                             (case map_of data ''timestamp'' of
                                None \<Rightarrow> Inl KeyError
                              | Some ts \<Rightarrow>
                                  (case py_truediv cv avg_volume of
                                     Inl e \<Rightarrow> Inl e
                                   | Inr multiplier \<Rightarrow>
                                       Inr (Some [(''type'', PStr ''volume_spike''),
                                                  (''symbol'', symbol),
                                                  (''timestamp'', ts),
                                                  (''current_volume'', current_volume),
                                                  (''average_volume'', PNum avg_volume),
                                                  (''multiplier'', PNum multiplier),
                                                  (''data'', PDict data)])))
                           else Inr None
                       | _ \<Rightarrow> Inl TypeError))))"

text \<open>
  \<open>_process_aggregate\<close>: the lists are updated in place before the check, so they keep
  the new entry also when the check raises; \<open>last_price\<close> and \<open>last_volume\<close> are
  written only when it returns.
\<close>

definition process_aggregate ::
  "RealTimeDataProcessor \<Rightarrow> pydict \<Rightarrow> RealTimeDataProcessor \<times> (error + pydict option)" where
  "process_aggregate st data =
     (case map_of data ''symbol'' of
        None \<Rightarrow> (st, Inl KeyError)
      | Some symbol \<Rightarrow>
          if \<not> hashable symbol then (st, Inl TypeError)
          else
           (let store0 = (case data_store st symbol of
                            None \<Rightarrow> \<lparr> recent_prices = [], recent_volumes = [],
                                       last_price = PNum 0, last_volume = PNum 0 \<rparr>
                          | Some s \<Rightarrow> s);
                st0 = st\<lparr> data_store := (data_store st)(symbol \<mapsto> store0) \<rparr>
            in case map_of data ''close'' of
                 None \<Rightarrow> (st0, Inl KeyError)
               | Some current_price \<Rightarrow>
                   (case map_of data ''volume'' of
                      None \<Rightarrow> (st0, Inl KeyError)
                    | Some current_volume \<Rightarrow>
                        (let store1 = store0\<lparr>
                               recent_prices := last20 (recent_prices store0 @ [current_price]),
                               recent_volumes := last20 (recent_volumes store0 @ [current_volume]) \<rparr>;
                             st1 = st\<lparr> data_store := (data_store st)(symbol \<mapsto> store1) \<rparr>
                         in case check_for_anomalies store1 symbol data of
                              Inl e \<Rightarrow> (st1, Inl e)
                            | Inr r \<Rightarrow>
                                (let store2 = store1\<lparr> last_price := current_price,
                                                        last_volume := current_volume \<rparr>;
                                     st2 = st\<lparr> data_store := (data_store st)(symbol \<mapsto> store2) \<rparr>
                                 in (st2, Inr r))))))"

section \<open>src/data/stream\_data.py: PolygonWebSocketClient\<close>

text \<open>
  A registered handler is called with the message and may change the world outside the
  client (its own state, files, the database): it maps the world before the call to the
  world after it and either returns (\<open>None\<close>) or raises an \<open>Exception\<close>. Effects made
  before a raise stay.
\<close>

type_synonym 'w handler = "pydict \<Rightarrow> 'w \<Rightarrow> error option \<times> 'w"



text \<open>
  The loop \<open>for handler in self.data_handlers: try: handler(data) except Exception\<close>.
  The third argument collects what \<open>logger.error\<close> is called with.
\<close>

fun call_handlers :: "'w handler list \<Rightarrow> pydict \<Rightarrow> 'w \<Rightarrow> error list \<Rightarrow> 'w \<times> error list" where
  "call_handlers [] data w logged = (w, logged)"
| "call_handlers (h # hs) data w logged =
     (case h data w of
        (None, w') \<Rightarrow> call_handlers hs data w' logged
      | (Some e, w') \<Rightarrow> call_handlers hs data w' (logged @ [e]))"


section \<open>src/data/database.py\<close>

text \<open>
  What SQLite keeps in a cell. The tables are lists of rows in insertion order; the
  columns \<open>id\<close> and \<open>created_at\<close>, which the engine fills by itself, are left out. The
  text column holding \<open>json.dumps(d)\<close> is represented by the dictionary \<open>d\<close>. The engine
  is taken to be available: a statement fails only on its parameters or on a constraint.
  Conversions by column affinity are not represented.
\<close>

datatype sqlval = SNull | SNum rat | SText string

record market_row =
  md_timestamp :: sqlval
  md_symbol :: sqlval
  md_asset_type :: sqlval
  md_price :: sqlval
  md_volume :: sqlval
  md_high :: sqlval
  md_low :: sqlval
  md_open :: sqlval
  md_vwap :: sqlval
  md_raw_data :: pydict

record anomaly_row =
  an_start_time :: sqlval
  an_end_time :: sqlval
  an_symbol :: sqlval
  an_asset_type :: sqlval
  an_anomaly_type :: sqlval
  an_multiplier :: sqlval
  an_current_value :: sqlval
  an_average_value :: sqlval
  an_status :: sqlval
  an_details :: pydict

record database =
  market_data :: "market_row list"
  anomalies :: "anomaly_row list"

text \<open>Binding a Python value to a \<open>?\<close> of a statement.\<close>

definition bind_param :: "pylib \<Rightarrow> pyval \<Rightarrow> error + sqlval" where
  "bind_param L v =
     (case v of
        PNone \<Rightarrow> Inr SNull
      | PNum x \<Rightarrow> Inr (SNum x)
      | PStr t \<Rightarrow> Inr (SText t)
      | PDatetime d \<Rightarrow> Inr (SText (adapt_datetime L d))
      | PList _ \<Rightarrow> Inl InterfaceError
      | PDict _ \<Rightarrow> Inl InterfaceError)"

fun bind_params :: "pylib \<Rightarrow> pyval list \<Rightarrow> error + sqlval list" where
  "bind_params L [] = Inr []"
| "bind_params L (v # vs) =
     (case bind_param L v of
        Inl e \<Rightarrow> Inl e
      | Inr c \<Rightarrow> (case bind_params L vs of Inl e \<Rightarrow> Inl e | Inr cs \<Rightarrow> Inr (c # cs)))"

text \<open>\<open>json.dumps\<close> raises \<open>TypeError\<close> on a \<open>datetime\<close> anywhere in the value.\<close>

fun json_serializable :: "pyval \<Rightarrow> bool" where
  "json_serializable PNone = True"
| "json_serializable (PNum x) = True"
| "json_serializable (PStr t) = True"
| "json_serializable (PDatetime d) = False"
| "json_serializable (PList vs) = (\<forall>v \<in> set vs. json_serializable v)"
| "json_serializable (PDict kvs) = (\<forall>v \<in> snd ` set kvs. json_serializable v)"

text \<open>
  A format specification such as \<open>:.4f\<close> in an f-string: numbers are formatted, a
  \<open>datetime\<close> treats the specification as a \<open>strftime\<close> pattern, everything else raises.
\<close>

fun format_float_ok :: "pyval \<Rightarrow> bool" where
  "format_float_ok (PNum x) = True"
| "format_float_ok (PDatetime d) = True"
| "format_float_ok _ = False"




definition insert_anomaly ::
  "pylib \<Rightarrow> pyval list \<Rightarrow> pydict \<Rightarrow> database \<Rightarrow> error + database" where
  "insert_anomaly L params details db =
     (if \<not> json_serializable (PDict details) then Inl TypeError
      else case bind_params L params of
             Inl e \<Rightarrow> Inl e
           | Inr [c_st, c_sym, c_at, c_ty, c_mu, c_cur, c_avg] \<Rightarrow>
               if c_st = SNull \<or> c_sym = SNull \<or> c_at = SNull \<or> c_ty = SNull
               then Inl IntegrityError
               else Inr (db\<lparr> anomalies := anomalies db @
                          [\<lparr> an_start_time = c_st, an_end_time = SNull, an_symbol = c_sym,
                             an_asset_type = c_at, an_anomaly_type = c_ty,
                             an_multiplier = c_mu, an_current_value = c_cur,
                             an_average_value = c_avg,
                             an_status = SText ''detected'', an_details = details \<rparr>] \<rparr>)
           | Inr _ \<Rightarrow> Inl InterfaceError)"

text \<open>\<open>store_anomaly\<close>; the f-string of \<open>logger.warning\<close> is formatted after the commit.\<close>

definition store_anomaly ::
  "pylib \<Rightarrow> datetime \<Rightarrow> string \<Rightarrow> pydict \<Rightarrow> database \<Rightarrow> bool \<times> database" where
  "store_anomaly L now asset_type anomaly db =
     (case insert_anomaly L
             [PDatetime now,
              dget anomaly ''symbol'' (PStr []),
              PStr asset_type,
              dget anomaly ''type'' (PStr []),
              dget anomaly ''multiplier'' (PNum 0),
              dget anomaly ''current_volume'' (dget anomaly ''current_value'' (PNum 0)),
              dget anomaly ''average_volume'' (dget anomaly ''average_value'' (PNum 0))]
             anomaly db of
        Inl e \<Rightarrow> (False, db)
      | Inr db' \<Rightarrow>
          if format_float_ok (dget anomaly ''multiplier'' (PNum 0)) then (True, db')
          else (False, db'))"

section \<open>src/data/backfill\_historical.py: store\_to\_database\<close>


definition record_exists :: "database \<Rightarrow> string \<Rightarrow> string \<Rightarrow> bool" where
  "record_exists db timestamp_str symbol =
     (length (filter (\<lambda>r. md_timestamp r = SText timestamp_str \<and> md_symbol r = SText symbol)
                (market_data db)) > 0)"




section \<open>src/data/stream\_crypto.py: CryptoWebSocketClient\<close>



section \<open>Availability as the specification words it\<close>

text \<open>
  The specification orders the tiers totally and calls a channel code available when it
  is known for the asset class and its required tier, if it has one, is at most the
  resolved tier of the asset class.
\<close>

fun tier_rank :: "SubscriptionTier \<Rightarrow> nat" where
  "tier_rank BASIC = 0"
| "tier_rank STARTER = 1"
| "tier_rank DEVELOPER = 2"
| "tier_rank ADVANCED = 3"

definition spec_channel_available :: "WebSocketConfig \<Rightarrow> AssetType \<Rightarrow> string \<Rightarrow> bool" where
  "spec_channel_available cfg a code =
     (code \<in> fst ` set (DATA_TYPES a) \<and>
      (case TIER_RESTRICTED_DATA_TYPES code of
         None \<Rightarrow> True
       | Some required \<Rightarrow> tier_rank required \<le> tier_rank (get_subscription_tier cfg a)))"

section \<open>Windows and means as the specification words them\<close>

text \<open>The mean of a list of volumes, and the volumes kept for a symbol by the stock processor.\<close>

definition mean :: "rat list \<Rightarrow> rat" where
  "mean xs = sum_list xs / of_nat (length xs)"

definition stock_window :: "RealTimeDataProcessor \<Rightarrow> pyval \<Rightarrow> pyval list" where
  "stock_window st symbol =
     (case data_store st symbol of None \<Rightarrow> [] | Some store \<Rightarrow> recent_volumes store)"

section \<open>Persistence as the specification words it\<close>

text \<open>
  The rows of \<open>market_data\<close> stored under a key, and the rows of \<open>anomalies\<close> that one
  call of \<open>store_anomaly\<close> added.
\<close>

definition key_rows :: "database \<Rightarrow> string \<Rightarrow> string \<Rightarrow> market_row list" where
  "key_rows db timestamp_str symbol =
     filter (\<lambda>r. md_timestamp r = SText timestamp_str \<and> md_symbol r = SText symbol)
       (market_data db)"

definition new_anomaly_rows ::
  "pylib \<Rightarrow> datetime \<Rightarrow> string \<Rightarrow> pydict \<Rightarrow> database \<Rightarrow> anomaly_row list" where
  "new_anomaly_rows L now asset_type anomaly db =
     drop (length (anomalies db)) (anomalies (snd (store_anomaly L now asset_type anomaly db)))"







section \<open>Message streams and sample inputs\<close>

text \<open>
  A processor is registered as a data handler, so it sees the ticks of a connection one
  after the other. The two functions below feed a list of ticks to a processor and
  collect what each call produced. For the crypto processor every tick comes with the
  clock reading of its call.
\<close>

fun run_crypto ::
  "pylib \<Rightarrow> CryptoDataProcessor \<Rightarrow> (datetime \<times> pydict) list
     \<Rightarrow> CryptoDataProcessor \<times> pydict option list" where
  "run_crypto L st [] = (st, [])"
| "run_crypto L st ((now, d) # ds) =
     (let r = process_data L now st d; rs = run_crypto L (fst r) ds
      in (fst rs, snd r # snd rs))"

fun run_aggregates ::
  "RealTimeDataProcessor \<Rightarrow> pydict list
     \<Rightarrow> RealTimeDataProcessor \<times> (error + pydict option) list" where
  "run_aggregates st [] = (st, [])"
| "run_aggregates st (d # ds) =
     (let r = process_aggregate st d; rs = run_aggregates (fst r) ds
      in (fst rs, snd r # snd rs))"

text \<open>Concrete configurations, environments, library functions and ticks for the examples.\<close>

definition config_with :: "SubscriptionTier \<Rightarrow> WebSocketConfig" where
  "config_with t = \<lparr> api_key = ''key'', asset_subscriptions = (\<lambda>a. Some t) \<rparr>"

definition no_env :: environ where
  "no_env = Map.empty"

definition override_env :: environ where
  "override_env = [''POLYGON_WS_URL_STOCKS'' \<mapsto> ''wss://example.test/feed'']"

fun sample_text :: "string \<Rightarrow> datetime \<Rightarrow> string" where
  "sample_text sep (Datetime n) =
     (if n = 0 then ''1970-01-01'' @ sep @ ''00:00:00''
      else ''1970-01-01'' @ sep @ ''00:00:01'')"

definition sample_lib :: pylib where
  "sample_lib = \<lparr> fromtimestamp = (\<lambda>t. if t = 0 then Some (Datetime 0) else Some (Datetime 1000000)),
                   fromisoformat = (\<lambda>t. if t = ''1970-01-01T00:00:00'' then Some (Datetime 0)
                                        else None),
                   isoformat = sample_text ''T'',
                   strftime_ymdhms = sample_text '' '',
                   adapt_datetime = sample_text '' '' \<rparr>"

definition xa_tick :: "string \<Rightarrow> rat \<Rightarrow> rat \<Rightarrow> pydict" where
  "xa_tick p vol cp =
     [(''ev'', PStr ''XA''), (''pair'', PStr p), (''v'', PNum vol), (''c'', PNum cp),
      (''s'', PNum 0)]"

definition aggregate_tick :: "string \<Rightarrow> rat \<Rightarrow> rat \<Rightarrow> pydict" where
  "aggregate_tick name vol cp =
     [(''timestamp'', PDatetime (Datetime 0)), (''symbol'', PStr name), (''close'', PNum cp),
      (''volume'', PNum vol), (''message_type'', PStr ''aggregate'')]"


text \<open>An empty database, a handler that always raises and a handler that records its call.\<close>

definition empty_db :: database where
  "empty_db = \<lparr> market_data = [], anomalies = [] \<rparr>"





text \<open>An anomaly as the crypto processor builds it, and a row of a backfill data frame.\<close>

definition sample_anomaly :: pydict where
  "sample_anomaly =
     [(''type'', PStr ''volume_spike''), (''symbol'', PStr ''BTC-USD''),
      (''current_volume'', PNum 400), (''average_volume'', PNum 100),
      (''multiplier'', PNum 4), (''timestamp'', PStr ''1970-01-01T00:00:00''),
      (''market'', PStr ''crypto'')]"


section \<open>Entitlement resolution\<close>

lemma upper_stocks: "upper ''stocks'' = ''STOCKS''"
  by code_simp

lemma upper_crypto: "upper ''crypto'' = ''CRYPTO''"
  by code_simp

lemma upper_forex: "upper ''forex'' = ''FOREX''"
  by code_simp

lemma upper_indices: "upper ''indices'' = ''INDICES''"
  by code_simp

lemma upper_options: "upper ''options'' = ''OPTIONS''"
  by code_simp

lemma upper_futures: "upper ''futures'' = ''FUTURES''"
  by code_simp

lemmas upper_literals =
  upper_stocks upper_crypto upper_forex upper_indices upper_options upper_futures

lemma tier_meets_requirement_rank:
  "tier_meets_requirement t r = (tier_rank r \<le> tier_rank t)"
  by (cases t; cases r) (simp_all add: tier_meets_requirement_def tier_hierarchy_def index_of_def)

text \<open>
  C3 (as amended). When no non-empty \<open>POLYGON_WS_URL_<ASSET>\<close> override is set and the
  resolved tier grants WebSocket access, \<open>get_websocket_url\<close> returns a host followed by
  \<open>/\<close> and the asset class's name. The host is fixed by the tier, with one special
  case: crypto on the starter tier gets the real-time host instead of the delayed one.
\<close>

theorem get_websocket_url_by_tier:
  assumes "env (''POLYGON_WS_URL_'' @ upper (asset_value a)) \<in> {None, Some []}"
    and "get_subscription_tier cfg a = t"
    and "t \<in> WEBSOCKET_ENABLED_TIERS"
  shows "get_websocket_url env cfg a =
           Inr ((if t = STARTER \<and> a \<noteq> CRYPTO then ''wss://delayed.polygon.io''
                 else ''wss://socket.polygon.io'') @ ''/'' @ asset_value a)"
  using assms
  by (cases t) (auto simp: get_websocket_url_def WEBSOCKET_ENABLED_TIERS_def
        WEBSOCKET_BASE_URLS_def fmt_opt_def Let_def)

theorem get_websocket_url_by_tier_witness:
  "get_websocket_url no_env (config_with STARTER) CRYPTO = Inr ''wss://socket.polygon.io/crypto''"
  using get_websocket_url_by_tier [of no_env CRYPTO "config_with STARTER" STARTER]
  by (simp add: no_env_def config_with_def get_subscription_tier_def WEBSOCKET_ENABLED_TIERS_def)

text \<open>
  C3 as stated fails: stocks and forex, both on the developer tier and neither the special
  case, resolve to different URLs, and an environment override replaces the URL whatever
  the tier.
\<close>

theorem get_websocket_url_not_tier_alone:
  "get_subscription_tier (config_with DEVELOPER) STOCKS = DEVELOPER
   \<and> get_subscription_tier (config_with DEVELOPER) FOREX = DEVELOPER
   \<and> get_websocket_url no_env (config_with DEVELOPER) STOCKS = Inr ''wss://socket.polygon.io/stocks''
   \<and> get_websocket_url no_env (config_with DEVELOPER) FOREX = Inr ''wss://socket.polygon.io/forex''
   \<and> get_websocket_url override_env (config_with DEVELOPER) STOCKS = Inr ''wss://example.test/feed''"
  by (simp add: get_websocket_url_def no_env_def override_env_def config_with_def
        get_subscription_tier_def WEBSOCKET_ENABLED_TIERS_def WEBSOCKET_BASE_URLS_def
        fmt_opt_def upper_literals)

text \<open>
  C4 (as amended). When no non-empty \<open>POLYGON_WS_URL_<ASSET>\<close> override is set, an asset
  class whose tier has no WebSocket access makes \<open>get_websocket_url\<close> raise
  \<open>ValueError\<close> instead of returning a URL.
\<close>

theorem get_websocket_url_no_access:
  assumes "env (''POLYGON_WS_URL_'' @ upper (asset_value a)) \<in> {None, Some []}"
    and "\<not> has_websocket_access cfg a"
  shows "get_websocket_url env cfg a =
           Inl (ValueError (''WebSocket not available for '' @ asset_value a @ '' on ''
                  @ tier_value (get_subscription_tier cfg a)
                  @ '' tier. Upgrade to Starter or higher.''))"
  using assms
  by (auto simp: get_websocket_url_def has_websocket_access_def get_subscription_tier_def Let_def)

theorem get_websocket_url_no_access_witness:
  "get_websocket_url no_env (config_with BASIC) CRYPTO =
     Inl (ValueError ''WebSocket not available for crypto on basic tier. Upgrade to Starter or higher.'')"
  using get_websocket_url_no_access [of no_env CRYPTO "config_with BASIC"]
  by (simp add: no_env_def config_with_def has_websocket_access_def get_subscription_tier_def
        WEBSOCKET_ENABLED_TIERS_def)

text \<open>
  C4 as stated fails: with the override variable set, the URL is returned although the
  tier is the bottom one.
\<close>

theorem get_websocket_url_override_without_access:
  "\<not> has_websocket_access (config_with BASIC) STOCKS
   \<and> get_websocket_url override_env (config_with BASIC) STOCKS = Inr ''wss://example.test/feed''"
  by (simp add: get_websocket_url_def override_env_def config_with_def has_websocket_access_def
        WEBSOCKET_ENABLED_TIERS_def upper_literals)

section \<open>Channel builder\<close>

lemma first_unavailable_find:
  "first_unavailable av dts = find (\<lambda>dt. dt \<notin> fst ` set av) dts"
  by (induction dts) simp_all

lemma build_channels_concat:
  "build_channels dts symbols = concat (map (\<lambda>dt. map (\<lambda>symbol. dt @ ''.'' @ symbol) symbols) dts)"
  by (induction dts) simp_all

lemma available_iff_spec:
  "code \<in> fst ` set (get_available_data_types cfg a False) \<longleftrightarrow> spec_channel_available cfg a code"
  by (force simp: get_available_data_types_def spec_channel_available_def
        tier_meets_requirement_rank split: option.splits)

text \<open>
  C8 (as amended). For an asset class with WebSocket access, a code passes the filter of
  \<open>get_available_data_types\<close> exactly when it is available in the specification's sense
  (unknown codes never are). \<open>get_subscription_channels\<close> checks all requested codes
  (the default code when none are given) before it builds anything: if one is unavailable
  it raises \<open>ValueError\<close> for the first such code, with a message naming that code, the
  asset class and the asset class's current tier; otherwise it returns the complete list
  of channels, codes outermost. There is no partial list.
\<close>

theorem get_subscription_channels_all_or_nothing:
  assumes "has_websocket_access cfg a"
    and "data_types = (case data_types_arg of None \<Rightarrow> default_data_types a | Some d \<Rightarrow> d)"
  shows "(code \<in> fst ` set (get_available_data_types cfg a False)
            \<longleftrightarrow> spec_channel_available cfg a code)
       \<and> get_subscription_channels cfg a symbols data_types_arg =
           (case find (\<lambda>dt. \<not> spec_channel_available cfg a dt) data_types of
              Some dt \<Rightarrow>
                Inl (ValueError (''Data type '' @ quote @ dt @ quote @ '' not available for ''
                       @ asset_value a @ '' on '' @ tier_value (get_subscription_tier cfg a)
                       @ '' tier''))
            | None \<Rightarrow>
                Inr (concat (map (\<lambda>dt. map (\<lambda>symbol. dt @ ''.'' @ symbol) symbols) data_types)))"
proof -
  have eq: "(\<lambda>dt. dt \<notin> fst ` set (get_available_data_types cfg a False))
              = (\<lambda>dt. \<not> spec_channel_available cfg a dt)"
    by (simp add: available_iff_spec)
  show ?thesis
    using assms
    by (simp add: get_subscription_channels_def first_unavailable_find build_channels_concat
          available_iff_spec eq split: option.splits)
qed

theorem get_subscription_channels_all_or_nothing_witness:
  "get_subscription_channels (config_with STARTER) STOCKS [''AAPL'', ''MSFT''] (Some [''A'', ''AM''])
     = Inr [''A.AAPL'', ''A.MSFT'', ''AM.AAPL'', ''AM.MSFT'']
   \<and> get_subscription_channels (config_with STARTER) STOCKS [''AAPL'', ''MSFT''] (Some [''A'', ''XA'', ''T''])
     = Inl (ValueError (''Data type '' @ quote @ ''XA'' @ quote @ '' not available for stocks on starter tier''))"
proof -
  have acc: "has_websocket_access (config_with STARTER) STOCKS"
    by (simp add: has_websocket_access_def config_with_def WEBSOCKET_ENABLED_TIERS_def)
  have t: "get_subscription_tier (config_with STARTER) STOCKS = STARTER"
    by (simp add: get_subscription_tier_def config_with_def)
  have 1: "spec_channel_available (config_with STARTER) STOCKS ''A''"
    by (simp add: spec_channel_available_def TIER_RESTRICTED_DATA_TYPES_def t)
  have 2: "spec_channel_available (config_with STARTER) STOCKS ''AM''"
    by (simp add: spec_channel_available_def TIER_RESTRICTED_DATA_TYPES_def t)
  have 3: "\<not> spec_channel_available (config_with STARTER) STOCKS ''XA''"
    by (simp add: spec_channel_available_def TIER_RESTRICTED_DATA_TYPES_def t)
  show ?thesis
    using get_subscription_channels_all_or_nothing
            [OF acc, of "[''A'', ''AM'']" "Some [''A'', ''AM'']" "''A''" "[''AAPL'', ''MSFT'']"]
          get_subscription_channels_all_or_nothing
            [OF acc, of "[''A'', ''XA'', ''T'']" "Some [''A'', ''XA'', ''T'']" "''A''" "[''AAPL'', ''MSFT'']"]
    by (simp add: 1 2 3 t)
qed

text \<open>
  C8 as stated fails: trades need the developer tier, yet the message raised for stocks
  on the starter tier names the starter tier and nowhere the developer tier; and on the
  bottom tier the error raised names no code at all.
\<close>

theorem get_subscription_channels_names_current_tier:
  "get_subscription_channels (config_with STARTER) STOCKS [''AAPL''] (Some [''T''])
     = Inl (ValueError (''Data type '' @ quote @ ''T'' @ quote @ '' not available for stocks on starter tier''))
   \<and> TIER_RESTRICTED_DATA_TYPES ''T'' = Some DEVELOPER
   \<and> \<not> sublist (tier_value DEVELOPER)
         (''Data type '' @ quote @ ''T'' @ quote @ '' not available for stocks on starter tier'')
   \<and> get_subscription_channels (config_with BASIC) STOCKS [''AAPL''] (Some [''T''])
     = Inl (ValueError ''WebSocket not available for stocks with basic tier'')"
  by code_simp

section \<open>Anomaly detectors\<close>

lemma length_deque_append: "length (deque_append n w x) \<le> length w + 1"
  by (simp add: deque_append_def Let_def)


lemma check_volume_anomaly_window:
  "check_volume_anomaly L now st symbol vol = Some a \<Longrightarrow> 5 \<le> length (recent_data st symbol)"
  by (auto simp: check_volume_anomaly_def Let_def split: if_splits sum.splits)

lemma process_data_window_growth:
  "length (recent_data (fst (process_data L now st d)) s)
     \<le> length (recent_data st s)
        + (if dget d ''pair'' (PStr ''UNKNOWN'') = s then 1 else 0)"
  using length_deque_append [of 10 "recent_data st s"]
  by (auto simp: process_data_def Let_def split: pyval.splits sum.splits bool.splits)

lemma process_data_emits_window:
  assumes "snd (process_data L now st d) = Some a"
  shows "4 \<le> length (recent_data st (dget d ''pair'' (PStr ''UNKNOWN'')))"
proof -
  let ?s = "dget d ''pair'' (PStr ''UNKNOWN'')"
  obtain st' vol where c: "check_volume_anomaly L now st' ?s vol = Some a"
    and w: "length (recent_data st' ?s) \<le> length (recent_data st ?s) + 1"
    using assms length_deque_append [of 10 "recent_data st ?s"]
    by (auto simp: process_data_def Let_def split: pyval.splits sum.splits bool.splits if_splits)
  from check_volume_anomaly_window [OF c] w show ?thesis by simp
qed

lemma run_crypto_window:
  "length (recent_data (fst (run_crypto L st ticks)) s)
     \<le> length (recent_data st s)
        + length (filter (\<lambda>tp. dget (snd tp) ''pair'' (PStr ''UNKNOWN'') = s) ticks)"
proof (induction ticks arbitrary: st)
  case Nil
  then show ?case by simp
next
  case (Cons tp ticks)
  obtain now d where tp: "tp = (now, d)" by (cases tp)
  have "length (recent_data (fst (run_crypto L st (tp # ticks))) s)
          = length (recent_data (fst (run_crypto L (fst (process_data L now st d)) ticks)) s)"
    by (simp add: tp Let_def)
  also have "\<dots> \<le> length (recent_data (fst (process_data L now st d)) s)
        + length (filter (\<lambda>tp. dget (snd tp) ''pair'' (PStr ''UNKNOWN'') = s) ticks)"
    by (rule Cons.IH)
  also have "\<dots> \<le> length (recent_data st s)
        + length (filter (\<lambda>tp. dget (snd tp) ''pair'' (PStr ''UNKNOWN'') = s) (tp # ticks))"
    using process_data_window_growth [of L now st d s] by (simp add: tp split: if_splits)
  finally show ?case .
qed


lemma length_last20: "length (last20 xs) \<le> length xs"
  by (simp add: last20_def)

lemma check_for_anomalies_window:
  "check_for_anomalies store symbol d = Inr (Some a) \<Longrightarrow> 5 \<le> length (recent_volumes store)"
  by (auto simp: check_for_anomalies_def split: if_splits)

lemma process_aggregate_window_growth:
  "length (stock_window (fst (process_aggregate st d)) s)
     \<le> length (stock_window st s) + (if map_of d ''symbol'' = Some s then 1 else 0)"
  using length_last20 [of "stock_window st s @ [the (map_of d ''volume'')]"]
  by (auto simp: process_aggregate_def stock_window_def Let_def
        split: option.splits sum.splits)

lemma process_aggregate_emits_window:
  assumes "snd (process_aggregate st d) = Inr (Some a)"
  shows "\<exists>s. map_of d ''symbol'' = Some s \<and> 4 \<le> length (stock_window st s)"
proof -
  obtain s v store1 where s: "map_of d ''symbol'' = Some s"
    and v: "map_of d ''volume'' = Some v"
    and c: "check_for_anomalies store1 s d = Inr (Some a)"
    and w: "recent_volumes store1 = last20 (stock_window st s @ [v])"
    using assms
    by (auto simp: process_aggregate_def stock_window_def Let_def
          split: option.splits sum.splits if_splits)
  from check_for_anomalies_window [OF c] w length_last20 [of "stock_window st s @ [v]"]
  have "4 \<le> length (stock_window st s)" by simp
  with s show ?thesis by simp
qed

lemma run_aggregates_window:
  "length (stock_window (fst (run_aggregates st ticks)) s)
     \<le> length (stock_window st s)
        + length (filter (\<lambda>p. map_of p ''symbol'' = Some s) ticks)"
proof (induction ticks arbitrary: st)
  case Nil
  then show ?case by simp
next
  case (Cons d ticks)
  have "length (stock_window (fst (run_aggregates st (d # ticks))) s)
          = length (stock_window (fst (run_aggregates (fst (process_aggregate st d)) ticks)) s)"
    by (simp add: Let_def)
  also have "\<dots> \<le> length (stock_window (fst (process_aggregate st d)) s)
        + length (filter (\<lambda>p. map_of p ''symbol'' = Some s) ticks)"
    by (rule Cons.IH)
  also have "\<dots> \<le> length (stock_window st s)
        + length (filter (\<lambda>p. map_of p ''symbol'' = Some s) (d # ticks))"
    using process_aggregate_window_growth [of st d s] by (simp split: if_splits)
  finally show ?case .
qed

text \<open>
  C1 (as amended). A processor checks for a spike only once the symbol's window, the new
  observation included, holds at least 5 entries. So whenever a tick makes either
  processor emit an anomaly, the symbol's window held at least 4 entries before that tick,
  and the stream fed to the processor since its creation contained at least 4 earlier
  ticks for that symbol.
\<close>

theorem anomaly_needs_four_prior_observations:
  "(snd (process_data L now (fst (run_crypto L CryptoDataProcessor_init pre)) d) = Some a
      \<longrightarrow> 4 \<le> length (recent_data (fst (run_crypto L CryptoDataProcessor_init pre))
                        (dget d ''pair'' (PStr ''UNKNOWN'')))
        \<and> 4 \<le> length (filter (\<lambda>tp. dget (snd tp) ''pair'' (PStr ''UNKNOWN'')
                                       = dget d ''pair'' (PStr ''UNKNOWN'')) pre))
   \<and> (snd (process_aggregate (fst (run_aggregates RealTimeDataProcessor_init pre')) d')
         = Inr (Some a')
      \<longrightarrow> 4 \<le> length (stock_window (fst (run_aggregates RealTimeDataProcessor_init pre'))
                        (the (map_of d' ''symbol'')))
        \<and> 4 \<le> length (filter (\<lambda>p. map_of p ''symbol'' = map_of d' ''symbol'') pre'))"
proof (intro conjI impI)
  assume e: "snd (process_data L now (fst (run_crypto L CryptoDataProcessor_init pre)) d) = Some a"
  from process_data_emits_window [OF e]
  show w: "4 \<le> length (recent_data (fst (run_crypto L CryptoDataProcessor_init pre))
                        (dget d ''pair'' (PStr ''UNKNOWN'')))" .
  from w run_crypto_window [of L CryptoDataProcessor_init pre "dget d ''pair'' (PStr ''UNKNOWN'')"]
  show "4 \<le> length (filter (\<lambda>tp. dget (snd tp) ''pair'' (PStr ''UNKNOWN'')
                                       = dget d ''pair'' (PStr ''UNKNOWN'')) pre)"
    by (simp add: CryptoDataProcessor_init_def)
next
  assume e: "snd (process_aggregate (fst (run_aggregates RealTimeDataProcessor_init pre')) d')
               = Inr (Some a')"
  from process_aggregate_emits_window [OF e]
  obtain s where s: "map_of d' ''symbol'' = Some s"
    and w: "4 \<le> length (stock_window (fst (run_aggregates RealTimeDataProcessor_init pre')) s)"
    by blast
  from w s
  show "4 \<le> length (stock_window (fst (run_aggregates RealTimeDataProcessor_init pre'))
                        (the (map_of d' ''symbol'')))" by simp
  from w s run_aggregates_window [of RealTimeDataProcessor_init pre' s]
  show "4 \<le> length (filter (\<lambda>p. map_of p ''symbol'' = map_of d' ''symbol'') pre')"
    by (simp add: RealTimeDataProcessor_init_def stock_window_def)
qed
theorem anomaly_needs_four_prior_observations_witness:
  "snd (process_data sample_lib (Datetime 0)
          (fst (run_crypto sample_lib CryptoDataProcessor_init
                  (replicate 4 (Datetime 0, xa_tick ''BTC-USD'' 100 1))))
          (xa_tick ''BTC-USD'' 400 1))
     = Some [(''type'', PStr ''volume_spike''), (''symbol'', PStr ''BTC-USD''),
             (''current_volume'', PNum 400), (''average_volume'', PNum 100),
             (''multiplier'', PNum 4), (''timestamp'', PStr ''1970-01-01T00:00:00''),
             (''market'', PStr ''crypto'')]
   \<and> 4 \<le> length (filter (\<lambda>tp. dget (snd tp) ''pair'' (PStr ''UNKNOWN'')
                                  = dget (xa_tick ''BTC-USD'' 400 1) ''pair'' (PStr ''UNKNOWN''))
                     (replicate 4 (Datetime 0, xa_tick ''BTC-USD'' 100 1)))"
proof -
  have e: "snd (process_data sample_lib (Datetime 0)
          (fst (run_crypto sample_lib CryptoDataProcessor_init
                  (replicate 4 (Datetime 0, xa_tick ''BTC-USD'' 100 1))))
          (xa_tick ''BTC-USD'' 400 1))
     = Some [(''type'', PStr ''volume_spike''), (''symbol'', PStr ''BTC-USD''),
             (''current_volume'', PNum 400), (''average_volume'', PNum 100),
             (''multiplier'', PNum 4), (''timestamp'', PStr ''1970-01-01T00:00:00''),
             (''market'', PStr ''crypto'')]"
    by code_simp
  from anomaly_needs_four_prior_observations [THEN conjunct1, rule_format, OF e] e
  show ?thesis by blast
qed

text \<open>
  C1 as stated fails: after only four earlier observations of a symbol, a fifth with four
  times their volume makes each processor emit an anomaly.
\<close>

theorem anomaly_after_four_prior_observations:
  "length (replicate 4 (Datetime 0, xa_tick ''BTC-USD'' 100 1)) = 4
   \<and> snd (process_data sample_lib (Datetime 0)
          (fst (run_crypto sample_lib CryptoDataProcessor_init
                  (replicate 4 (Datetime 0, xa_tick ''BTC-USD'' 100 1))))
          (xa_tick ''BTC-USD'' 400 1))
     = Some [(''type'', PStr ''volume_spike''), (''symbol'', PStr ''BTC-USD''),
             (''current_volume'', PNum 400), (''average_volume'', PNum 100),
             (''multiplier'', PNum 4), (''timestamp'', PStr ''1970-01-01T00:00:00''),
             (''market'', PStr ''crypto'')]
   \<and> length (replicate 4 (aggregate_tick ''AAPL'' 100 10)) = 4
   \<and> snd (process_aggregate
          (fst (run_aggregates RealTimeDataProcessor_init
                  (replicate 4 (aggregate_tick ''AAPL'' 100 10))))
          (aggregate_tick ''AAPL'' 400 10))
     = Inr (Some [(''type'', PStr ''volume_spike''), (''symbol'', PStr ''AAPL''),
                  (''timestamp'', PDatetime (Datetime 0)),
                  (''current_volume'', PNum 400), (''average_volume'', PNum 100),
                  (''multiplier'', PNum 4),
                  (''data'', PDict (aggregate_tick ''AAPL'' 400 10))])"
  by code_simp













text \<open>
  C5. The crypto processor skips the check when the average is not positive (lemma
  \<open>crypto_zero_average_guard\<close> below). The stock processor has no such guard: after
  four ticks of volume 0 a tick of volume 5 passes the comparison with three times the
  average and the division by the zero average raises \<open>ZeroDivisionError\<close>.
\<close>

theorem stock_zero_average_raises:
  "snd (process_aggregate
          (fst (run_aggregates RealTimeDataProcessor_init
                  (replicate 4 (aggregate_tick ''AAPL'' 0 10))))
          (aggregate_tick ''AAPL'' 5 10)) = Inl ZeroDivisionError"
  by code_simp

lemma crypto_zero_average_guard:
  assumes "mean (map obs_volume (butlast (recent_data st symbol))) \<le> 0"
  shows "check_volume_anomaly L now st symbol vol = None"
proof (cases "length (recent_data st symbol) < 5")
  case True
  then show ?thesis by (simp add: check_volume_anomaly_def)
next
  case False
  then have n: "length (butlast (recent_data st symbol)) \<noteq> 0" by simp
  have a: "py_truediv (sum_list (butlast (map obs_volume (recent_data st symbol))))
             (of_nat (length (butlast (map obs_volume (recent_data st symbol)))))
           = Inr (mean (map obs_volume (butlast (recent_data st symbol))))"
    using n by (simp add: py_truediv_def mean_def map_butlast)
  have len: "\<not> length (map obs_volume (recent_data st symbol)) < 5"
    using False by simp
  have neg: "\<not> 0 < mean (map obs_volume (butlast (recent_data st symbol)))"
    using assms by simp
  show ?thesis
    unfolding check_volume_anomaly_def Let_def a
    by (simp only: len if_False sum.case neg)
qed

section \<open>Handler dispatch\<close>


lemma call_handlers_logged:
  "length (snd (call_handlers hs data w logged)) \<le> length logged + length hs"
proof (induction hs arbitrary: w logged)
  case Nil
  then show ?case by simp
next
  case (Cons h hs)
  obtain r w' where hw: "h data w = (r, w')" by (cases "h data w")
  show ?case
  proof (cases r)
    case None
    with hw Cons.IH [of w' logged] show ?thesis by simp
  next
    case (Some e)
    with hw Cons.IH [of w' "logged @ [e]"] show ?thesis by simp
  qed
qed



section \<open>Persistence\<close>

lemma record_exists_key_rows: "record_exists db k s = (key_rows db k s \<noteq> [])"
  by (simp add: record_exists_def key_rows_def)











lemma map_of_dset:
  "map_of (dset d k v) k' = (if k' = k then Some v else map_of d k')"
proof (cases "dhas d k")
  case True
  have "map_of (map (\<lambda>(k', v'). if k' = k then (k', v) else (k', v')) d) k'
          = (if k' = k then (if map_of d k = None then None else Some v) else map_of d k')"
    by (induction d) auto
  with True show ?thesis by (auto simp: dset_def dhas_def)
next
  case False
  then show ?thesis by (auto simp: dset_def dhas_def map_add_def split: option.splits)
qed

lemma dget_dset_other: "k' \<noteq> k \<Longrightarrow> dget (dset d k v) k' dflt = dget d k' dflt"
  by (simp add: dget_def map_of_dset)

lemma insert_anomaly_row:
  assumes "insert_anomaly L [PDatetime now, s, a, t, m, c, v] details db = Inr db'"
  shows "db' = db\<lparr> anomalies := anomalies db @
           [\<lparr> an_start_time = SText (adapt_datetime L now), an_end_time = SNull,
              an_symbol = projr (bind_param L s), an_asset_type = projr (bind_param L a),
              an_anomaly_type = projr (bind_param L t), an_multiplier = projr (bind_param L m),
              an_current_value = projr (bind_param L c),
              an_average_value = projr (bind_param L v),
              an_status = SText ''detected'', an_details = details \<rparr>] \<rparr>"
proof -
  have d: "bind_param L (PDatetime now) = Inr (SText (adapt_datetime L now))"
    by (simp add: bind_param_def)
  show ?thesis
    using assms
    by (auto simp: insert_anomaly_def d split: sum.splits if_splits)
qed

lemma store_anomaly_rows:
  "new_anomaly_rows L now a an db = []
   \<or> new_anomaly_rows L now a an db =
       [\<lparr> an_start_time = SText (adapt_datetime L now), an_end_time = SNull,
          an_symbol = projr (bind_param L (dget an ''symbol'' (PStr []))),
          an_asset_type = projr (bind_param L (PStr a)),
          an_anomaly_type = projr (bind_param L (dget an ''type'' (PStr []))),
          an_multiplier = projr (bind_param L (dget an ''multiplier'' (PNum 0))),
          an_current_value = projr (bind_param L
             (dget an ''current_volume'' (dget an ''current_value'' (PNum 0)))),
          an_average_value = projr (bind_param L
             (dget an ''average_volume'' (dget an ''average_value'' (PNum 0)))),
          an_status = SText ''detected'', an_details = an \<rparr>]"
proof (cases "insert_anomaly L
             [PDatetime now,
              dget an ''symbol'' (PStr []),
              PStr a,
              dget an ''type'' (PStr []),
              dget an ''multiplier'' (PNum 0),
              dget an ''current_volume'' (dget an ''current_value'' (PNum 0)),
              dget an ''average_volume'' (dget an ''average_value'' (PNum 0))]
             an db")
  case (Inl e)
  then show ?thesis by (simp add: new_anomaly_rows_def store_anomaly_def)
next
  case (Inr db')
  from insert_anomaly_row [OF Inr] Inr show ?thesis
    by (simp add: new_anomaly_rows_def store_anomaly_def)
qed

lemma store_anomaly_appends:
  "anomalies (snd (store_anomaly L now a an db)) = anomalies db @ new_anomaly_rows L now a an db
   \<and> market_data (snd (store_anomaly L now a an db)) = market_data db"
proof (cases "insert_anomaly L
             [PDatetime now,
              dget an ''symbol'' (PStr []),
              PStr a,
              dget an ''type'' (PStr []),
              dget an ''multiplier'' (PNum 0),
              dget an ''current_volume'' (dget an ''current_value'' (PNum 0)),
              dget an ''average_volume'' (dget an ''average_value'' (PNum 0))]
             an db")
  case (Inl e)
  then show ?thesis by (simp add: new_anomaly_rows_def store_anomaly_def)
next
  case (Inr db')
  from insert_anomaly_row [OF Inr] Inr show ?thesis
    by (simp add: new_anomaly_rows_def store_anomaly_def)
qed

text \<open>
  C9. Every row that a call of \<open>store_anomaly\<close> adds to \<open>anomalies\<close> has as
  \<open>start_time\<close> the clock reading of that call and as \<open>details\<close> the serialised
  anomaly. Replacing the anomaly's own \<open>timestamp\<close> entry by any other value changes
  nothing in the stored row but \<open>details\<close>, so the event's timestamp survives only
  there. The call appends to the table and changes no earlier row.
\<close>

theorem anomaly_start_time_is_insertion_time:
  "(\<forall>r \<in> set (new_anomaly_rows L now a an db).
       an_start_time r = SText (adapt_datetime L now) \<and> an_details r = an)
   \<and> (\<forall>r \<in> set (new_anomaly_rows L now a an db).
       \<forall>r' \<in> set (new_anomaly_rows L now a (dset an ''timestamp'' v) db).
         r' = r\<lparr> an_details := dset an ''timestamp'' v \<rparr>)
   \<and> anomalies (snd (store_anomaly L now a an db))
       = anomalies db @ new_anomaly_rows L now a an db"
proof (intro conjI ballI)
  fix r assume "r \<in> set (new_anomaly_rows L now a an db)"
  with store_anomaly_rows [of L now a an db]
  show "an_start_time r = SText (adapt_datetime L now)" and "an_details r = an"
    by auto
next
  fix r r'
  assume r: "r \<in> set (new_anomaly_rows L now a an db)"
    and r': "r' \<in> set (new_anomaly_rows L now a (dset an ''timestamp'' v) db)"
  from r store_anomaly_rows [of L now a an db] r'
    store_anomaly_rows [of L now a "dset an ''timestamp'' v" db]
  show "r' = r\<lparr> an_details := dset an ''timestamp'' v \<rparr>"
    by (auto simp: dget_dset_other)
next
  show "anomalies (snd (store_anomaly L now a an db))
       = anomalies db @ new_anomaly_rows L now a an db"
    by (simp add: store_anomaly_appends)
qed

theorem anomaly_start_time_is_insertion_time_witness:
  "new_anomaly_rows sample_lib (Datetime 1) ''crypto'' sample_anomaly empty_db
     = [\<lparr> an_start_time = SText ''1970-01-01 00:00:01'', an_end_time = SNull,
          an_symbol = SText ''BTC-USD'', an_asset_type = SText ''crypto'',
          an_anomaly_type = SText ''volume_spike'', an_multiplier = SNum 4,
          an_current_value = SNum 400, an_average_value = SNum 100,
          an_status = SText ''detected'', an_details = sample_anomaly \<rparr>]
   \<and> an_start_time (hd (new_anomaly_rows sample_lib (Datetime 1) ''crypto'' sample_anomaly empty_db))
       = SText (adapt_datetime sample_lib (Datetime 1))
   \<and> dget sample_anomaly ''timestamp'' PNone = PStr ''1970-01-01T00:00:00''"
proof -
  have rows: "new_anomaly_rows sample_lib (Datetime 1) ''crypto'' sample_anomaly empty_db
     = [\<lparr> an_start_time = SText ''1970-01-01 00:00:01'', an_end_time = SNull,
          an_symbol = SText ''BTC-USD'', an_asset_type = SText ''crypto'',
          an_anomaly_type = SText ''volume_spike'', an_multiplier = SNum 4,
          an_current_value = SNum 400, an_average_value = SNum 100,
          an_status = SText ''detected'', an_details = sample_anomaly \<rparr>]"
    by code_simp
  then have mem: "hd (new_anomaly_rows sample_lib (Datetime 1) ''crypto'' sample_anomaly empty_db)
               \<in> set (new_anomaly_rows sample_lib (Datetime 1) ''crypto'' sample_anomaly empty_db)"
    by simp
  have ts: "dget sample_anomaly ''timestamp'' PNone = PStr ''1970-01-01T00:00:00''"
    by code_simp
  from anomaly_start_time_is_insertion_time [THEN conjunct1, rule_format, OF mem] rows ts
  show ?thesis by simp
qed







end
